theory Spec2Isabelle
  imports Complex_Main "HOL-Library.Log_Nat"
begin

section \<open>Python floats\<close>

text \<open>
  Balances and amounts are Python \<^verbatim>\<open>float\<close>s: IEEE 754 binary64 values, whose sums
  and differences are rounded to the nearest double, ties to the even significand. A
  finite float is represented by the rational number it denotes; the two infinities and
  NaN are separate values, and so is the negative zero: \<open>Fin 0\<close> is \<^verbatim>\<open>0.0\<close> and
  \<open>NegZero\<close> is \<^verbatim>\<open>-0.0\<close>. The doubles among the rationals are those that rounding
  leaves as they are (\<open>exact\<close> below).
\<close>

datatype pyfloat = Fin rat | NegZero | PosInf | NegInf | NaN

definition pow2 :: "int \<Rightarrow> rat" where
  "pow2 e = (if 0 \<le> e then 2 ^ nat e else 1 / 2 ^ nat (- e))"

text \<open>\<open>floor_log2 q\<close> is the integer \<open>k\<close> with \<open>2^k \<le> q < 2^(k+1)\<close>, for \<open>q > 0\<close>.\<close>

definition floor_log2 :: "rat \<Rightarrow> int" where
  "floor_log2 q =
     (let k = bitlen (fst (quotient_of q)) - bitlen (snd (quotient_of q))
      in if pow2 k \<le> q then k else k - 1)"

text \<open>Rounding a non-negative rational to the nearest integer, ties to even.\<close>

definition round_half_even :: "rat \<Rightarrow> int" where
  "round_half_even m =
     (let f = \<lfloor>m\<rfloor>; r = m - of_int f
      in if r < 1 / 2 then f
         else if 1 / 2 < r then f + 1
         else if even f then f else f + 1)"

text \<open>
  The exponent of the unit in the last place of the binade of \<open>q > 0\<close>: 53 significant
  bits, and no exponent below that of the subnormal numbers.
\<close>

definition ulp_exponent :: "rat \<Rightarrow> int" where
  "ulp_exponent q = max (floor_log2 q - 52) (- 1074)"

definition max_double :: rat where
  "max_double = (2 ^ 53 - 1) * 2 ^ 971"

definition round_pos :: "rat \<Rightarrow> rat" where
  "round_pos q = of_int (round_half_even (q / pow2 (ulp_exponent q))) * pow2 (ulp_exponent q)"

definition round_double :: "rat \<Rightarrow> pyfloat" where
  "round_double q =
     (if q = 0 then Fin 0
      else if 0 < q then
        (if max_double < round_pos q then PosInf else Fin (round_pos q))
      else
        (if max_double < round_pos (- q) then NegInf
         else if round_pos (- q) = 0 then NegZero
         else Fin (- round_pos (- q))))"

text \<open>A double: a rational that rounding leaves as it is.\<close>

definition exact :: "rat \<Rightarrow> bool" where
  "exact q = (round_double q = Fin q)"

text \<open>
  Negation, sum and difference. A sum that is exactly zero is \<^verbatim>\<open>0.0\<close>, unless both
  summands are \<^verbatim>\<open>-0.0\<close>; a difference is the sum with the negated subtrahend.
\<close>

fun fneg :: "pyfloat \<Rightarrow> pyfloat" where
  "fneg (Fin q) = (if q = 0 then NegZero else Fin (- q))"
| "fneg NegZero = Fin 0"
| "fneg PosInf = NegInf"
| "fneg NegInf = PosInf"
| "fneg NaN = NaN"

fun fadd :: "pyfloat \<Rightarrow> pyfloat \<Rightarrow> pyfloat" where
  "fadd NaN y = NaN"
| "fadd x NaN = NaN"
| "fadd PosInf NegInf = NaN"
| "fadd NegInf PosInf = NaN"
| "fadd PosInf y = PosInf"
| "fadd NegInf y = NegInf"
| "fadd x PosInf = PosInf"
| "fadd x NegInf = NegInf"
| "fadd NegZero NegZero = NegZero"
| "fadd NegZero (Fin b) = round_double b"
| "fadd (Fin a) NegZero = round_double a"
| "fadd (Fin a) (Fin b) = round_double (a + b)"

definition fsub :: "pyfloat \<Rightarrow> pyfloat \<Rightarrow> pyfloat" where
  "fsub x y = fadd x (fneg y)"

text \<open>Comparisons: every comparison with NaN is false, and both zeros are equal.\<close>

fun flt :: "pyfloat \<Rightarrow> pyfloat \<Rightarrow> bool" where
  "flt NaN y = False"
| "flt x NaN = False"
| "flt PosInf y = False"
| "flt x NegInf = False"
| "flt NegInf y = True"
| "flt x PosInf = True"
| "flt NegZero NegZero = False"
| "flt NegZero (Fin b) = (0 < b)"
| "flt (Fin a) NegZero = (a < 0)"
| "flt (Fin a) (Fin b) = (a < b)"

fun fle :: "pyfloat \<Rightarrow> pyfloat \<Rightarrow> bool" where
  "fle NaN y = False"
| "fle x NaN = False"
| "fle NegInf y = True"
| "fle x PosInf = True"
| "fle PosInf y = False"
| "fle x NegInf = False"
| "fle NegZero NegZero = True"
| "fle NegZero (Fin b) = (0 \<le> b)"
| "fle (Fin a) NegZero = (a \<le> 0)"
| "fle (Fin a) (Fin b) = (a \<le> b)"


section \<open>Strings\<close>

text \<open>
  A Python string is a sequence of Unicode code points. The model holds its UTF-8
  encoding, a list of 8-bit characters: two strings are equal exactly when their
  encodings are, and an ASCII string is its own encoding.

  \<^verbatim>\<open>str.lower\<close> is a builtin of the interpreter, and its Unicode case tables are not
  part of the repository. The function is therefore a parameter \<open>lw\<close> of every
  definition whose source calls it. What is known of it is \<open>str_lower\<close>: on an ASCII
  string it makes the letters A to Z small and keeps every other character, and only
  the empty string has an empty lowercase form.
\<close>

definition ascii :: "string \<Rightarrow> bool" where
  "ascii s = list_all (\<lambda>c. of_char c < (128::nat)) s"

definition char_lower :: "char \<Rightarrow> char" where
  "char_lower c =
     (if (65::nat) \<le> of_char c \<and> of_char c \<le> (90::nat)
      then char_of (of_char c + (32::nat)) else c)"

definition ascii_lower :: "string \<Rightarrow> string" where
  "ascii_lower s = map char_lower s"

definition str_lower :: "(string \<Rightarrow> string) \<Rightarrow> bool" where
  "str_lower lw = ((\<forall>s. ascii s \<longrightarrow> lw s = ascii_lower s) \<and> (\<forall>s. lw s = [] \<longrightarrow> s = []))"

section \<open>Accounts\<close>

text \<open>
  A \<^verbatim>\<open>BankAccount\<close> object has four private fields. The stored PayPal email may be
  \<^verbatim>\<open>None\<close>: \<^verbatim>\<open>verify_paypal_email\<close> guards against it.
\<close>

record BankAccount =
  acc_id :: string
  balance :: pyfloat
  credit_card_number :: string
  paypal_email :: "string option"

text \<open>
  Account objects are shared and mutated in place, so they live in a store addressed by
  references; two references are the same object exactly when they are equal. The
  lines written by \<^verbatim>\<open>print\<close> are collected in \<open>stdout\<close>.
\<close>

type_synonym ref = nat

record world =
  heap :: "ref \<Rightarrow> BankAccount"
  stdout :: "string list"

datatype py_error = KeyError string | ValueError string

definition print :: "string \<Rightarrow> world \<Rightarrow> world" where
  "print s w = w\<lparr>stdout := stdout w @ [s]\<rparr>"

definition set_balance :: "ref \<Rightarrow> pyfloat \<Rightarrow> world \<Rightarrow> world" where
  "set_balance r v w = w\<lparr>heap := (heap w)(r := (heap w r)\<lparr>balance := v\<rparr>)\<rparr>"

definition get_balance :: "ref \<Rightarrow> world \<Rightarrow> pyfloat" where
  "get_balance r w = balance (heap w r)"

text \<open>\<^verbatim>\<open>BankAccount.__init__\<close>: the four fields are stored as given.\<close>

definition BankAccount_init :: "string \<Rightarrow> pyfloat \<Rightarrow> string \<Rightarrow> string option \<Rightarrow> BankAccount" where
  "BankAccount_init i b c p =
     \<lparr>acc_id = i, balance = b, credit_card_number = c, paypal_email = p\<rparr>"

text \<open>The \<^verbatim>\<open>balance\<close> setter: raises \<^verbatim>\<open>ValueError\<close> on a negative value.\<close>

definition balance_setter :: "ref \<Rightarrow> pyfloat \<Rightarrow> world \<Rightarrow> (py_error + unit) \<times> world" where
  "balance_setter self v w =
     (if flt v (Fin 0) then (Inl (ValueError ''Balance can't be negative''), w)
      else (Inr (), set_balance self v w))"

text \<open>
  \<^verbatim>\<open>BankAccount.transfer\<close>. The deposit reads the receiver's balance after the
  withdrawal has been written, which matters when both references are the same object.
\<close>

definition transfer :: "ref \<Rightarrow> pyfloat \<Rightarrow> ref \<Rightarrow> world \<Rightarrow> bool \<times> world" where
  "transfer self amount to_account w =
     (if fle amount (Fin 0) then (False, w)
      else if flt (get_balance self w) amount then (False, print ''Insufficient funds'' w)
      else
        (let w1 = set_balance self (fsub (get_balance self w) amount) w;
             w2 = set_balance to_account (fadd (get_balance to_account w1) amount) w1
         in (True, w2)))"

definition verify_credit_card :: "BankAccount \<Rightarrow> string \<Rightarrow> bool" where
  "verify_credit_card acc number = (number = credit_card_number acc)"

text \<open>\<^verbatim>\<open>x or ""\<close>: \<^verbatim>\<open>None\<close> and the empty string are both falsy.\<close>

definition or_empty :: "string option \<Rightarrow> string" where
  "or_empty x = (case x of None \<Rightarrow> [] | Some s \<Rightarrow> (if s = [] then [] else s))"

definition verify_paypal_email :: "(string \<Rightarrow> string) \<Rightarrow> BankAccount \<Rightarrow> string \<Rightarrow> bool" where
  "verify_paypal_email lw acc e = (lw e = lw (or_empty (paypal_email acc)))"

section \<open>Payments\<close>

datatype Payment =
    CreditCardPayment (amount: pyfloat) (from_account_id: string) (to_account_id: string)
      (card_number: string)
  | PayPalPayment (amount: pyfloat) (from_account_id: string) (to_account_id: string)
      (email: string)

text \<open>\<^verbatim>\<open>accounts[key]\<close> on a dictionary of account references.\<close>

definition getitem :: "(string \<rightharpoonup> ref) \<Rightarrow> string \<Rightarrow> py_error + ref" where
  "getitem accounts k = (case accounts k of None \<Rightarrow> Inl (KeyError k) | Some r \<Rightarrow> Inr r)"

definition CreditCardPayment_process ::
  "pyfloat \<Rightarrow> string \<Rightarrow> string \<Rightarrow> string \<Rightarrow> (string \<rightharpoonup> ref) \<Rightarrow> world \<Rightarrow> (py_error + bool) \<times> world" where
  "CreditCardPayment_process amt src dst number accounts w =
     (case getitem accounts src of
        Inl e \<Rightarrow> (Inl e, w)
      | Inr sender \<Rightarrow>
          (case getitem accounts dst of
             Inl e \<Rightarrow> (Inl e, w)
           | Inr receiver \<Rightarrow>
               if \<not> verify_credit_card (heap w sender) number
               then (Inr False, print ''Error: invalid credit card number'' w)
               else
                 (let (success, w1) = transfer sender amt receiver w
                  in if \<not> success then (Inr success, print ''Error: transfer failed'' w1)
                     else (Inr success, w1))))"

definition PayPalPayment_process ::
  "(string \<Rightarrow> string) \<Rightarrow> pyfloat \<Rightarrow> string \<Rightarrow> string \<Rightarrow> string \<Rightarrow> (string \<rightharpoonup> ref) \<Rightarrow> world
     \<Rightarrow> (py_error + bool) \<times> world" where
  "PayPalPayment_process lw amt src dst mail accounts w =
     (case getitem accounts src of
        Inl e \<Rightarrow> (Inl e, w)
      | Inr sender \<Rightarrow>
          (case getitem accounts dst of
             Inl e \<Rightarrow> (Inl e, w)
           | Inr receiver \<Rightarrow>
               if \<not> verify_paypal_email lw (heap w sender) mail
               then (Inr False, print ''Error: invalid PayPal-email'' w)
               else
                 (let (success, w1) = transfer sender amt receiver w
                  in if \<not> success then (Inr success, print ''Error: transfer failed'' w1)
                     else (Inr success, w1))))"

text \<open>Dynamic dispatch of \<^verbatim>\<open>payment.process(accounts)\<close> on the payment's class.\<close>

fun process ::
  "(string \<Rightarrow> string) \<Rightarrow> Payment \<Rightarrow> (string \<rightharpoonup> ref) \<Rightarrow> world \<Rightarrow> (py_error + bool) \<times> world" where
  "process lw (CreditCardPayment amt src dst number) accounts w =
     CreditCardPayment_process amt src dst number accounts w"
| "process lw (PayPalPayment amt src dst mail) accounts w =
     PayPalPayment_process lw amt src dst mail accounts w"


section \<open>The driver\<close>

text \<open>Formatting: \<^verbatim>\<open>str(bool)\<close>, decimal digits, and \<^verbatim>\<open>f"{x:.2f}"\<close> on a float.\<close>

definition bool_str :: "bool \<Rightarrow> string" where
  "bool_str b = (if b then ''True'' else ''False'')"

definition digit_char :: "nat \<Rightarrow> char" where
  "digit_char d = ''0123456789'' ! d"

fun nat_str :: "nat \<Rightarrow> string" where
  "nat_str n = (if n < 10 then [digit_char n] else nat_str (n div 10) @ [digit_char (n mod 10)])"

declare nat_str.simps [simp del]

text \<open>
  Two decimals, correctly rounded from the exact value of the float (ties to even), the
  sign kept also when the digits are all zero.
\<close>

fun format_2f :: "pyfloat \<Rightarrow> string" where
  "format_2f (Fin q) =
     (let n = nat (round_half_even (\<bar>q\<bar> * 100))
      in (if q < 0 then ''-'' else []) @ nat_str (n div 100) @ ''.''
           @ [digit_char (n mod 100 div 10), digit_char (n mod 10)])"
| "format_2f NegZero = ''-0.00''"
| "format_2f PosInf = ''inf''"
| "format_2f NegInf = ''-inf''"
| "format_2f NaN = ''nan''"

definition opt_str :: "string option \<Rightarrow> string" where
  "opt_str x = (case x of None \<Rightarrow> ''None'' | Some s \<Rightarrow> s)"

text \<open>\<^verbatim>\<open>BankAccount.__str__\<close>\<close>

definition BankAccount_str :: "BankAccount \<Rightarrow> string" where
  "BankAccount_str acc =
     ''BankAccount(id='' @ acc_id acc @ '', balance='' @ format_2f (balance acc)
       @ '', card='' @ credit_card_number acc @ '', paypal='' @ opt_str (paypal_email acc) @ '')''"

text \<open>
  The first loop of \<^verbatim>\<open>main\<close>: each payment is processed and its outcome printed; an
  exception leaves the loop.
\<close>

fun pay_all ::
  "(string \<Rightarrow> string) \<Rightarrow> Payment list \<Rightarrow> (string \<rightharpoonup> ref) \<Rightarrow> world \<Rightarrow> (py_error + unit) \<times> world" where
  "pay_all lw [] accounts w = (Inr (), w)"
| "pay_all lw (payment # payments) accounts w =
     (case process lw payment accounts w of
        (Inl e, w1) \<Rightarrow> (Inl e, w1)
      | (Inr ok, w1) \<Rightarrow>
          pay_all lw payments accounts
            (print (replicate 30 (CHR ''-'')) (print (''Successfully? '' @ bool_str ok) w1)))"

text \<open>The second loop: every account of the dictionary is printed, in insertion order.\<close>

fun print_all :: "ref list \<Rightarrow> world \<Rightarrow> world" where
  "print_all [] w = w"
| "print_all (r # rs) w = print_all rs (print (BankAccount_str (heap w r)) w)"

text \<open>
  The objects \<^verbatim>\<open>main\<close> creates: two accounts, at the references 0 and 1, the
  dictionary that names them, and three payments. A reference that holds no object
  carries \<open>no_account\<close>.
\<close>

definition no_account :: BankAccount where
  "no_account = BankAccount_init [] (Fin 0) [] None"

definition main_items :: "(string \<times> ref) list" where
  "main_items = [(''A001'', 0), (''A002'', 1)]"

definition main_accounts :: "string \<rightharpoonup> ref" where
  "main_accounts = map_of main_items"

definition main_world :: world where
  "main_world =
     \<lparr>heap = (\<lambda>r. no_account)
        (0 := BankAccount_init ''A001'' (Fin 1000) ''1234567890123456'' (Some ''user1@example.com''),
         1 := BankAccount_init ''A002'' (Fin 500) ''1111222233334444'' (Some ''user2@example.com'')),
      stdout = []\<rparr>"

definition main_payments :: "Payment list" where
  "main_payments =
     [CreditCardPayment (Fin 200) ''A001'' ''A002'' ''1234567890123456'',
      PayPalPayment (Fin 300) ''A001'' ''A002'' ''wrong@example.com'',
      CreditCardPayment (Fin 900) ''A002'' ''A001'' ''1111222233334444'']"

definition main :: "(string \<Rightarrow> string) \<Rightarrow> (py_error + unit) \<times> world" where
  "main lw =
     (case pay_all lw main_payments main_accounts main_world of
        (Inl e, w) \<Rightarrow> (Inl e, w)
      | (Inr u, w) \<Rightarrow> (Inr (), print_all (map snd main_items) w))"

section \<open>Notions of the specification\<close>

text \<open>The credential a payment presents verifies against an account.\<close>

fun verifies :: "(string \<Rightarrow> string) \<Rightarrow> Payment \<Rightarrow> BankAccount \<Rightarrow> bool" where
  "verifies lw (CreditCardPayment amt src dst number) acc = verify_credit_card acc number"
| "verifies lw (PayPalPayment amt src dst mail) acc = verify_paypal_email lw acc mail"


definition is_upper :: "char \<Rightarrow> bool" where
  "is_upper c = ((65::nat) \<le> of_char c \<and> of_char c \<le> (90::nat))"

definition same_letter :: "char \<Rightarrow> char \<Rightarrow> bool" where
  "same_letter c d =
     (c = d \<or> (is_upper c \<and> (of_char d :: nat) = of_char c + 32)
            \<or> (is_upper d \<and> (of_char c :: nat) = of_char d + 32))"

definition eq_ignore_case :: "string \<Rightarrow> string \<Rightarrow> bool" where
  "eq_ignore_case s t = list_all2 same_letter s t"


section \<open>Sample states\<close>

text \<open>The two accounts of the driver, with other balances.\<close>

definition two_accounts :: "pyfloat \<Rightarrow> pyfloat \<Rightarrow> world" where
  "two_accounts b c =
     \<lparr>heap = (\<lambda>r. no_account)
        (0 := BankAccount_init ''A001'' b ''1234567890123456'' (Some ''user1@example.com''),
         1 := BankAccount_init ''A002'' c ''1111222233334444'' (Some ''user2@example.com'')),
      stdout = []\<rparr>"

text \<open>Both balances are \<open>2^53\<close>, where the doubles are two apart.\<close>

definition big_accounts :: world where
  "big_accounts = two_accounts (Fin 9007199254740992) (Fin 9007199254740992)"

text \<open>The first balance is \<open>2^53 + 2\<close>.\<close>

definition odd_accounts :: world where
  "odd_accounts = two_accounts (Fin 9007199254740994) (Fin 0)"

text \<open>The first balance is \<open>2^54\<close>, where the doubles below are two apart.\<close>

definition huge_accounts :: world where
  "huge_accounts = two_accounts (Fin 18014398509481984) (Fin 0)"

text \<open>A payment from the first account to itself, and a payment of 1 to the second.\<close>

definition self_payment :: Payment where
  "self_payment = CreditCardPayment (Fin 200) ''A001'' ''A001'' ''1234567890123456''"

definition unit_payment :: Payment where
  "unit_payment = CreditCardPayment (Fin 1) ''A001'' ''A002'' ''1234567890123456''"

text \<open>The states of the driver after its first, second and third payment.\<close>

definition after1 :: "(string \<Rightarrow> string) \<Rightarrow> world" where
  "after1 lw = snd (process lw (main_payments ! 0) main_accounts main_world)"

definition after2 :: "(string \<Rightarrow> string) \<Rightarrow> world" where
  "after2 lw = snd (process lw (main_payments ! 1) main_accounts (after1 lw))"

definition after3 :: "(string \<Rightarrow> string) \<Rightarrow> world" where
  "after3 lw = snd (process lw (main_payments ! 2) main_accounts (after2 lw))"

section \<open>Basic facts\<close>

lemma heap_print [simp]: "heap (print s w) = heap w"
  by (simp add: print_def)

lemma heap_set_balance [simp]:
  "heap (set_balance r v w) = (heap w)(r := (heap w r)\<lparr>balance := v\<rparr>)"
  by (simp add: set_balance_def)

lemma get_balance_print [simp]: "get_balance r (print s w) = get_balance r w"
  by (simp add: get_balance_def)

lemma get_balance_set_balance [simp]:
  "get_balance r (set_balance r' v w) = (if r = r' then v else get_balance r w)"
  by (simp add: get_balance_def)

lemma flt_not_fle: "flt x y \<Longrightarrow> \<not> fle y x"
  by (cases x; cases y) simp_all

lemma fle_not_flt: "fle x y \<Longrightarrow> \<not> flt y x"
  by (cases x; cases y) simp_all

lemma main_balances:
  "get_balance 0 main_world = Fin 1000" "get_balance (Suc 0) main_world = Fin 500"
  by (simp_all add: get_balance_def main_world_def BankAccount_init_def)

lemma main_lookup:
  "main_accounts ''A001'' = Some 0" "main_accounts ''A002'' = Some (Suc 0)"
  by (simp_all add: main_accounts_def main_items_def)

section \<open>Facts about strings\<close>

lemma char_of_eq_nat: "n < 256 \<Longrightarrow> (char_of (n::nat) = d) = (of_char d = n)"
  by (auto simp: char_of_eq_iff take_bit_eq_mod)

lemma char_lower_eq_iff: "(char_lower c = char_lower d) = same_letter c d"
proof -
  have c: "(of_char c :: nat) < 256" and d: "(of_char d :: nat) < 256"
    by simp_all
  have inj: "(c = d) = ((of_char c :: nat) = of_char d)"
    by simp
  show ?thesis
    unfolding char_lower_def same_letter_def is_upper_def inj
    using c d
    by (auto simp: char_of_eq_nat eq_commute[of _ "char_of _"] simp del: of_char_eq_iff
        intro: of_char_eqI)
qed

lemma ascii_lower_eq_iff: "(ascii_lower s = ascii_lower t) = eq_ignore_case s t"
  unfolding ascii_lower_def eq_ignore_case_def
proof (induction s arbitrary: t)
  case Nil
  then show ?case by auto
next
  case (Cons c s)
  then show ?case by (cases t) (auto simp: char_lower_eq_iff)
qed

lemma str_lower_ascii_lower: "str_lower ascii_lower"
  by (simp add: str_lower_def ascii_lower_def)

lemma str_lower_eq_iff:
  assumes "str_lower lw" and "ascii s" and "ascii t"
  shows "(lw s = lw t) = eq_ignore_case s t"
proof -
  have "lw s = ascii_lower s" and "lw t = ascii_lower t"
    using assms unfolding str_lower_def by blast+
  then show ?thesis
    by (simp add: ascii_lower_eq_iff)
qed


lemma ascii_literals:
  "ascii ''user1@example.com''" "ascii ''user2@example.com''" "ascii ''wrong@example.com''"
  "ascii ''User1@Example.COM''" "ascii ''a@b.c''"
  by (simp_all add: ascii_def)

section \<open>Rejected transfers\<close>

text \<open>
  C2. For every pair of accounts, \<open>transfer\<close> returns false and leaves the balance of
  the sender and of the receiver as they were (indeed the whole store of accounts),
  whenever the amount is at most zero, and likewise whenever the amount exceeds the
  sender's balance.
\<close>

theorem transfer_rejected:
  assumes "fle a (Fin 0) \<or> flt (get_balance self w) a"
  shows "fst (transfer self a to_account w) = False
       \<and> get_balance self (snd (transfer self a to_account w)) = get_balance self w
       \<and> get_balance to_account (snd (transfer self a to_account w)) = get_balance to_account w
       \<and> heap (snd (transfer self a to_account w)) = heap w"
  using assms by (auto simp: transfer_def)

theorem transfer_rejected_witness:
  "flt (get_balance 1 main_world) (Fin 900)
   \<and> fst (transfer 1 (Fin 900) 0 main_world) = False
   \<and> get_balance 1 (snd (transfer 1 (Fin 900) 0 main_world)) = Fin 500
   \<and> get_balance 0 (snd (transfer 1 (Fin 900) 0 main_world)) = Fin 1000"
proof -
  have h: "fle (Fin 900) (Fin 0) \<or> flt (get_balance 1 main_world) (Fin 900)"
    by (simp add: main_balances)
  from transfer_rejected [OF h, of 0] show ?thesis
    by (simp add: main_balances)
qed

section \<open>Payments that are refused\<close>

text \<open>
  C4. For a payment of either kind whose source and destination identifiers are keys of
  the dictionary: if the presented credential does not verify against the sender's
  stored secret, \<open>process\<close> returns false and no account is changed, whatever the
  amount and the sender's balance are.
\<close>

theorem process_bad_credential:
  assumes "accounts (from_account_id p) = Some s"
    and "accounts (to_account_id p) = Some t"
    and "\<not> verifies lw p (heap w s)"
  shows "fst (process lw p accounts w) = Inr False
    \<and> heap (snd (process lw p accounts w)) = heap w"
  using assms
  by (cases p) (simp_all add: CreditCardPayment_process_def PayPalPayment_process_def getitem_def)

theorem process_bad_credential_witness:
  "\<not> verifies ascii_lower (PayPalPayment (Fin 300) ''A001'' ''A002'' ''wrong@example.com'')
       (heap main_world 0)
   \<and> fst (process ascii_lower
        (PayPalPayment (Fin 300) ''A001'' ''A002'' ''wrong@example.com'')
        main_accounts main_world) = Inr False
   \<and> heap (snd (process ascii_lower
        (PayPalPayment (Fin 300) ''A001'' ''A002'' ''wrong@example.com'')
        main_accounts main_world)) = heap main_world"
proof -
  let ?p = "PayPalPayment (Fin 300) ''A001'' ''A002'' ''wrong@example.com''"
  have s: "main_accounts (from_account_id ?p) = Some 0"
    and t: "main_accounts (to_account_id ?p) = Some 1"
    by (simp_all add: main_lookup)
  have v: "\<not> verifies ascii_lower ?p (heap main_world 0)"
    by (simp add: verify_paypal_email_def or_empty_def main_world_def BankAccount_init_def
        ascii_lower_eq_iff eq_ignore_case_def same_letter_def is_upper_def)
  from process_bad_credential [OF s t v] v show ?thesis
    by simp
qed

text \<open>
  C6. For a payment of either kind whose source identifier or destination identifier
  is not a key of the dictionary, \<open>process\<close> does not return a boolean: it raises
  \<^verbatim>\<open>KeyError\<close>, and nothing has been changed or printed by then.
\<close>

theorem process_lookup_fault:
  assumes "accounts (from_account_id p) = None \<or> accounts (to_account_id p) = None"
  shows "(\<exists>k. fst (process lw p accounts w) = Inl (KeyError k))
    \<and> snd (process lw p accounts w) = w"
  using assms
  by (cases p)
    (auto simp: CreditCardPayment_process_def PayPalPayment_process_def getitem_def
      split: option.splits)

theorem process_lookup_fault_witness:
  "main_accounts ''A003'' = None
   \<and> (\<exists>k. fst (process ascii_lower
         (CreditCardPayment (Fin 200) ''A001'' ''A003'' ''1234567890123456'')
         main_accounts main_world) = Inl (KeyError k))
   \<and> snd (process ascii_lower
         (CreditCardPayment (Fin 200) ''A001'' ''A003'' ''1234567890123456'')
         main_accounts main_world) = main_world"
proof -
  let ?p = "CreditCardPayment (Fin 200) ''A001'' ''A003'' ''1234567890123456''"
  have n: "main_accounts ''A003'' = None"
    by (simp add: main_accounts_def main_items_def)
  then have h: "main_accounts (from_account_id ?p) = None \<or> main_accounts (to_account_id ?p) = None"
    by simp
  from process_lookup_fault [OF h] n show ?thesis
    by simp
qed

section \<open>Verification of credentials\<close>



section \<open>What a call may change\<close>

lemma transfer_frame:
  "acc_id (heap (snd (transfer s a t w)) r) = acc_id (heap w r)
   \<and> credit_card_number (heap (snd (transfer s a t w)) r) = credit_card_number (heap w r)
   \<and> paypal_email (heap (snd (transfer s a t w)) r) = paypal_email (heap w r)
   \<and> (r \<noteq> s \<and> r \<noteq> t \<longrightarrow> heap (snd (transfer s a t w)) r = heap w r)"
  by (simp add: transfer_def Let_def)

lemma process_frame:
  "acc_id (heap (snd (process lw p accounts w)) r) = acc_id (heap w r)
   \<and> credit_card_number (heap (snd (process lw p accounts w)) r) = credit_card_number (heap w r)
   \<and> paypal_email (heap (snd (process lw p accounts w)) r) = paypal_email (heap w r)
   \<and> (accounts (from_account_id p) \<noteq> Some r \<and> accounts (to_account_id p) \<noteq> Some r
        \<longrightarrow> heap (snd (process lw p accounts w)) r = heap w r)"
proof (cases p)
  case (CreditCardPayment amt src dst number)
  then show ?thesis
    using transfer_frame [of _ amt _ w r]
    by (auto simp: CreditCardPayment_process_def getitem_def split_beta
        split: option.splits)
next
  case (PayPalPayment amt src dst mail)
  then show ?thesis
    using transfer_frame [of _ amt _ w r]
    by (auto simp: PayPalPayment_process_def getitem_def split_beta
        split: option.splits)
qed

text \<open>
  C9. A call of \<open>transfer\<close>, and a call of \<open>process\<close> on a payment of either kind,
  whatever its outcome, leaves the identifier, the card number and the email of every
  account as they were, and the balance of every account that is neither the sender
  nor the receiver. The dictionary is only read: it is an argument of \<open>process\<close> and
  no part of the state that is returned, so its keys and the accounts they name stay.
\<close>

theorem only_balances_change:
  "acc_id (heap (snd (transfer s a t w)) r) = acc_id (heap w r)
   \<and> credit_card_number (heap (snd (transfer s a t w)) r) = credit_card_number (heap w r)
   \<and> paypal_email (heap (snd (transfer s a t w)) r) = paypal_email (heap w r)
   \<and> (r \<noteq> s \<and> r \<noteq> t \<longrightarrow> heap (snd (transfer s a t w)) r = heap w r)
   \<and> acc_id (heap (snd (process lw p accounts w)) r) = acc_id (heap w r)
   \<and> credit_card_number (heap (snd (process lw p accounts w)) r) = credit_card_number (heap w r)
   \<and> paypal_email (heap (snd (process lw p accounts w)) r) = paypal_email (heap w r)
   \<and> (accounts (from_account_id p) \<noteq> Some r \<and> accounts (to_account_id p) \<noteq> Some r
        \<longrightarrow> heap (snd (process lw p accounts w)) r = heap w r)"
  using transfer_frame [of s a t w r] process_frame [of lw p accounts w r]
  by simp

theorem only_balances_change_witness:
  "heap (snd (transfer 0 (Fin 200) 1 main_world)) 2 = heap main_world 2
   \<and> acc_id (heap (snd (transfer 0 (Fin 200) 1 main_world)) 1) = ''A002''
   \<and> heap (snd (process ascii_lower
        (CreditCardPayment (Fin 200) ''A001'' ''A002'' ''1234567890123456'')
        main_accounts main_world)) 2 = heap main_world 2
   \<and> paypal_email (heap (snd (process ascii_lower
        (CreditCardPayment (Fin 200) ''A001'' ''A002'' ''1234567890123456'')
        main_accounts main_world)) 0) = Some ''user1@example.com''"
  using
    only_balances_change [where s = 0 and a = "Fin 200" and t = 1 and w = main_world and r = 2
      and p = "CreditCardPayment (Fin 200) ''A001'' ''A002'' ''1234567890123456''"
      and accounts = main_accounts and lw = ascii_lower]
    only_balances_change [where s = 0 and a = "Fin 200" and t = 1 and w = main_world and r = 1
      and p = "CreditCardPayment (Fin 200) ''A001'' ''A002'' ''1234567890123456''"
      and accounts = main_accounts and lw = ascii_lower]
    only_balances_change [where s = 0 and a = "Fin 200" and t = 1 and w = main_world and r = 0
      and p = "CreditCardPayment (Fin 200) ''A001'' ''A002'' ''1234567890123456''"
      and accounts = main_accounts and lw = ascii_lower]
  by (simp add: main_lookup main_world_def BankAccount_init_def)

section \<open>Rounding\<close>

lemma pow2_powi: "pow2 e = 2 powi e"
  by (simp add: pow2_def power_int_def power_one_over inverse_eq_divide)

lemma pow2_pos [simp]: "0 < pow2 e"
  by (simp add: pow2_powi)

lemma pow2_nonneg [simp]: "0 \<le> pow2 e"
  by (rule less_imp_le) (rule pow2_pos)

lemma floor_rat_numeral_div [simp]:
  "\<lfloor>(numeral a :: rat) / numeral b\<rfloor> = numeral a div numeral b"
  using floor_divide_of_int_eq [of "numeral a" "numeral b", where ?'a = rat] by simp

lemma pow2_add: "pow2 (a + b) = pow2 a * pow2 b"
  by (simp add: pow2_powi power_int_add)

lemma pow2_mono: "a \<le> b \<Longrightarrow> pow2 a \<le> pow2 b"
  by (simp add: pow2_powi power_int_increasing)

lemma pow2_strict_mono: "a < b \<Longrightarrow> pow2 a < pow2 b"
  by (simp add: pow2_powi power_int_strict_increasing)

lemma pow2_nat: "0 \<le> e \<Longrightarrow> pow2 e = of_int (2 ^ nat e)"
  by (simp add: pow2_def)

lemma pow2_diff: "pow2 (a - b) = pow2 a / pow2 b"
  by (simp add: pow2_powi power_int_diff)

lemma floor_log2_bounds:
  assumes "0 < q"
  shows "pow2 (floor_log2 q) \<le> q \<and> q < pow2 (floor_log2 q + 1)"
proof -
  obtain p d where pd: "quotient_of q = (p, d)"
    by (cases "quotient_of q")
  have d: "0 < d"
    using pd by (rule quotient_of_denom_pos)
  have q: "q = of_int p / of_int d"
    using pd by (rule quotient_of_div)
  have p: "0 < p"
    using assms d unfolding q by (simp add: zero_less_divide_iff)
  define k where "k = bitlen p - bitlen d"
  have bp: "1 \<le> bitlen p" and bd: "1 \<le> bitlen d"
    using p d bitlen_eq_zero_iff[of p] bitlen_eq_zero_iff[of d] bitlen_nonneg[of p] bitlen_nonneg[of d]
    by linarith+
  have p_lo: "pow2 (bitlen p - 1) \<le> of_int p" and p_hi: "of_int p < pow2 (bitlen p)"
    using bitlen_bounds[OF p] bp
    by (simp_all add: pow2_nat flip: of_int_power)
  have d_lo: "pow2 (bitlen d - 1) \<le> of_int d" and d_hi: "of_int d < pow2 (bitlen d)"
    using bitlen_bounds[OF d] bd
    by (simp_all add: pow2_nat flip: of_int_power)
  have dpos: "(0::rat) < of_int d"
    using d by simp
  have "of_int p < pow2 (k + 1) * pow2 (bitlen d - 1)"
    using p_hi by (simp add: k_def flip: pow2_add)
  also have "\<dots> \<le> pow2 (k + 1) * of_int d"
    using d_lo by (simp add: mult_left_mono)
  finally have hi: "q < pow2 (k + 1)"
    using dpos by (simp add: q pos_divide_less_eq)
  have "pow2 (k - 1) * of_int d < pow2 (k - 1) * pow2 (bitlen d)"
    using d_hi by (simp add: mult_strict_left_mono)
  also have "\<dots> = pow2 (bitlen p - 1)"
    by (simp add: k_def flip: pow2_add)
  also have "\<dots> \<le> of_int p"
    by (rule p_lo)
  finally have lo: "pow2 (k - 1) \<le> q"
    using dpos by (simp add: q pos_le_divide_eq)
  have fl: "floor_log2 q = (if pow2 k \<le> q then k else k - 1)"
    by (simp add: floor_log2_def pd k_def)
  show ?thesis
    using lo hi by (simp add: fl)
qed

lemma floor_log2_unique:
  assumes "pow2 k \<le> q" and "q < pow2 (k + 1)"
  shows "floor_log2 q = k"
proof -
  have "0 < q"
    using assms(1) pow2_pos[of k] by linarith
  then have b: "pow2 (floor_log2 q) \<le> q" "q < pow2 (floor_log2 q + 1)"
    using floor_log2_bounds by simp_all
  have "\<not> floor_log2 q < k"
  proof
    assume "floor_log2 q < k"
    then have "pow2 (floor_log2 q + 1) \<le> pow2 k"
      by (simp add: pow2_mono)
    with b(2) assms(1) show False by linarith
  qed
  moreover have "\<not> k < floor_log2 q"
  proof
    assume "k < floor_log2 q"
    then have "pow2 (k + 1) \<le> pow2 (floor_log2 q)"
      by (simp add: pow2_mono)
    with b(1) assms(2) show False by linarith
  qed
  ultimately show ?thesis by linarith
qed

lemma floor_log2_less:
  assumes "0 < q" and "q < pow2 k"
  shows "floor_log2 q < k"
proof (rule ccontr)
  assume "\<not> floor_log2 q < k"
  then have "pow2 k \<le> pow2 (floor_log2 q)"
    by (simp add: pow2_mono)
  with floor_log2_bounds[OF assms(1)] assms(2) show False
    by linarith
qed

lemma round_half_even_of_int [simp]: "round_half_even (of_int n) = n"
  by (simp add: round_half_even_def)

lemma round_half_even_nonneg: "0 \<le> m \<Longrightarrow> 0 \<le> round_half_even m"
  by (simp add: round_half_even_def Let_def)

lemma round_pos_nonneg: "0 \<le> q \<Longrightarrow> 0 \<le> round_pos q"
  by (simp add: round_pos_def round_half_even_nonneg less_imp_le)

lemma round_pos_dyadic:
  assumes m: "0 < m" "m < 2 ^ 53" and e: "- 1074 \<le> e"
  shows "round_pos (of_int m * pow2 e) = of_int m * pow2 e"
proof -
  define q where "q = of_int m * pow2 e"
  define u where "u = ulp_exponent q"
  have qpos: "0 < q"
    using m(1) by (simp add: q_def)
  have "(of_int m :: rat) < of_int (2 ^ 53)"
    using m(2) by (simp only: of_int_less_iff)
  then have "of_int m < pow2 53"
    by (simp add: pow2_def)
  then have "q < pow2 53 * pow2 e"
    by (simp add: q_def)
  then have "q < pow2 (53 + e)"
    by (simp add: pow2_add)
  then have "floor_log2 q < 53 + e"
    using qpos by (rule floor_log2_less[rotated])
  then have ue: "u \<le> e"
    using e by (simp add: u_def ulp_exponent_def)
  then have "pow2 (e - u) = of_int (2 ^ nat (e - u))"
    by (simp add: pow2_nat)
  moreover have "q / pow2 u = of_int m * pow2 (e - u)"
    by (simp add: q_def pow2_diff)
  ultimately have "q / pow2 u = of_int (m * 2 ^ nat (e - u))"
    by simp
  then have "round_pos q = of_int (m * 2 ^ nat (e - u)) * pow2 u"
    by (simp only: round_pos_def u_def round_half_even_of_int)
  also have "\<dots> = of_int m * (pow2 (e - u) * pow2 u)"
    using ue by (simp add: pow2_nat)
  also have "\<dots> = q"
    by (simp add: q_def flip: pow2_add)
  finally show ?thesis
    by (simp add: q_def)
qed

lemma dyadic_le_max_double:
  assumes "0 < m" "m < 2 ^ 53" "e \<le> 971"
  shows "of_int m * pow2 e \<le> max_double"
proof -
  have "m \<le> 2 ^ 53 - 1"
    using assms(2) by simp
  then have "(of_int m :: rat) \<le> of_int (2 ^ 53 - 1)"
    by (simp only: of_int_le_iff)
  then have "of_int m \<le> (2 ^ 53 - 1 :: rat)"
    by simp
  moreover have "pow2 e \<le> pow2 971"
    using assms(3) by (rule pow2_mono)
  moreover have "pow2 971 = 2 ^ 971"
    by (simp add: pow2_def)
  ultimately show ?thesis
    unfolding max_double_def by (intro mult_mono) simp_all
qed

lemma round_double_dyadic_pos:
  assumes "0 < m" "m < 2 ^ 53" "- 1074 \<le> e" "e \<le> 971"
  shows "round_double (of_int m * pow2 e) = Fin (of_int m * pow2 e)"
proof -
  have "0 < of_int m * pow2 e"
    using assms(1) by simp
  moreover have "\<not> max_double < of_int m * pow2 e"
    using dyadic_le_max_double[OF assms(1,2,4)] by simp
  ultimately show ?thesis
    using round_pos_dyadic[OF assms(1,2,3)] by (simp add: round_double_def)
qed

lemma exact_dyadic:
  assumes "\<bar>m\<bar> < 2 ^ 53" "- 1074 \<le> e" "e \<le> 971"
  shows "exact (of_int m * pow2 e)"
proof -
  consider "m = 0" | "0 < m" | "m < 0" by linarith
  then show ?thesis
  proof cases
    case 1
    then show ?thesis by (simp add: exact_def round_double_def)
  next
    case 2
    then show ?thesis
      using assms round_double_dyadic_pos[of m e] by (simp add: exact_def)
  next
    case 3
    then have "round_double (of_int (- m) * pow2 e) = Fin (of_int (- m) * pow2 e)"
      using assms by (intro round_double_dyadic_pos) simp_all
    moreover have "of_int m * pow2 e < 0"
      using 3 by (simp add: mult_less_0_iff)
    ultimately show ?thesis
      by (auto simp: exact_def round_double_def split: if_splits)
  qed
qed

lemma exact_of_int:
  assumes "\<bar>n\<bar> < 2 ^ 53"
  shows "exact (of_int n)"
  using exact_dyadic[OF assms, of 0] by (simp add: pow2_def)

lemma exact_numeral [simp]: "numeral k < (2 ^ 53 :: int) \<Longrightarrow> exact (numeral k)"
  using exact_of_int[of "numeral k"] by simp

lemma exact_two_53: "exact 9007199254740992"
  using exact_dyadic[of 1 53] by (simp add: pow2_def)

lemma exact_two_53_plus_2: "exact 9007199254740994"
  using exact_dyadic[of 4503599627370497 1] by (simp add: pow2_def)

lemma exact_two_54: "exact 18014398509481984"
  using exact_dyadic[of 1 54] by (simp add: pow2_def)

lemma round_tie_53: "round_double 9007199254740993 = Fin 9007199254740992"
proof -
  have "floor_log2 9007199254740993 = 53"
    by (rule floor_log2_unique) (simp_all add: pow2_def)
  then have u: "ulp_exponent 9007199254740993 = 1"
    by (simp add: ulp_exponent_def)
  have "round_half_even (9007199254740993 / 2) = 4503599627370496"
    by (simp add: round_half_even_def Let_def)
  then have "round_pos 9007199254740993 = 9007199254740992"
    by (simp add: round_pos_def u pow2_def)
  then show ?thesis
    by (simp add: round_double_def max_double_def)
qed

text \<open>The double next to one tenth, which Python writes \<^verbatim>\<open>0.1\<close>.\<close>

lemma round_tenth: "round_double (1 / 10) = Fin (3602879701896397 / 36028797018963968)"
proof -
  have "floor_log2 (1 / 10) = - 4"
    by (rule floor_log2_unique) (simp_all add: pow2_def)
  then have u: "ulp_exponent (1 / 10) = - 56"
    by (simp add: ulp_exponent_def)
  have "round_half_even (72057594037927936 / 10) = 7205759403792794"
    by (simp add: round_half_even_def Let_def)
  then have "round_pos (1 / 10) = 3602879701896397 / 36028797018963968"
    by (simp add: round_pos_def u pow2_def)
  then show ?thesis
    by (simp add: round_double_def max_double_def)
qed

text \<open>What rounding returns is a double again.\<close>

lemma round_half_even_bounds:
  "\<lfloor>x\<rfloor> \<le> round_half_even x \<and> round_half_even x \<le> \<lfloor>x\<rfloor> + 1"
  by (simp add: round_half_even_def Let_def)

lemma exact_minus: "exact r \<Longrightarrow> exact (- r)"
  by (auto simp: exact_def round_double_def split: if_splits)

lemma ulp_exponent_ge: "- 1074 \<le> ulp_exponent q"
  by (simp add: ulp_exponent_def)

lemma round_pos_exact:
  assumes q: "0 < q" and le: "round_pos q \<le> max_double"
  shows "exact (round_pos q)"
proof -
  define u where "u = ulp_exponent q"
  define n where "n = round_half_even (q / pow2 u)"
  have r: "round_pos q = of_int n * pow2 u"
    by (simp add: round_pos_def n_def u_def)
  have u_lo: "- 1074 \<le> u"
    by (simp add: u_def ulp_exponent_ge)
  have fl: "pow2 (floor_log2 q) \<le> q" "q < pow2 (floor_log2 q + 1)"
    using floor_log2_bounds[OF q] by simp_all
  have "floor_log2 q + 1 \<le> u + 53"
    by (simp add: u_def ulp_exponent_def)
  then have "pow2 (floor_log2 q + 1) \<le> pow2 (u + 53)"
    by (rule pow2_mono)
  with fl(2) have "q < pow2 u * pow2 53"
    by (simp add: pow2_add)
  then have "q / pow2 u < pow2 53"
    by (simp add: pos_divide_less_eq mult.commute)
  then have "q / pow2 u < of_int (2 ^ 53)"
    by (simp add: pow2_def)
  then have "\<lfloor>q / pow2 u\<rfloor> < 2 ^ 53"
    by (simp only: floor_less_iff)
  then have n_hi: "n \<le> 2 ^ 53"
    using round_half_even_bounds[of "q / pow2 u"] unfolding n_def by linarith
  have n_lo: "0 \<le> n"
    using q by (simp add: n_def round_half_even_nonneg)
  show ?thesis
  proof (cases "n = 0")
    case True
    then show ?thesis
      by (simp add: r exact_def round_double_def)
  next
    case False
    with n_lo have n_pos: "0 < n"
      by simp
    have u_hi: "u < 972"
    proof (cases "u = - 1074")
      case True
      then show ?thesis by simp
    next
      case False
      then have "u = floor_log2 q - 52"
        by (simp add: u_def ulp_exponent_def max_def split: if_splits)
      then have "pow2 (u + 52) \<le> q"
        using fl(1) by simp
      then have "pow2 u * pow2 52 \<le> q"
        by (simp add: pow2_add)
      then have "pow2 52 \<le> q / pow2 u"
        by (simp add: pos_le_divide_eq mult.commute)
      then have "of_int (2 ^ 52) \<le> q / pow2 u"
        by (simp add: pow2_def)
      then have "2 ^ 52 \<le> \<lfloor>q / pow2 u\<rfloor>"
        by (simp only: le_floor_iff)
      then have "2 ^ 52 \<le> n"
        using round_half_even_bounds[of "q / pow2 u"] unfolding n_def by linarith
      then have "(of_int (2 ^ 52) :: rat) \<le> of_int n"
        by (simp only: of_int_le_iff)
      then have "pow2 52 * pow2 u \<le> of_int n * pow2 u"
        by (simp add: pow2_def mult_right_mono)
      also have "\<dots> \<le> max_double"
        using le by (simp add: r)
      also have "\<dots> < pow2 52 * pow2 972"
        by (simp add: max_double_def pow2_def)
      finally have "pow2 u < pow2 972"
        by simp
      then show ?thesis
        using pow2_mono[of 972 u] by (cases "u < 972") simp_all
    qed
    show ?thesis
    proof (cases "n = 2 ^ 53")
      case True
      have "pow2 53 * pow2 u \<le> max_double"
        using le by (simp add: r True pow2_def)
      also have "\<dots> < pow2 53 * pow2 971"
        by (simp add: max_double_def pow2_def)
      finally have "pow2 u < pow2 971"
        by simp
      then have "u < 971"
        using pow2_mono[of 971 u] by (cases "u < 971") simp_all
      then have "exact (of_int (2 ^ 52) * pow2 (u + 1))"
        using u_lo by (intro exact_dyadic) simp_all
      moreover have "pow2 1 = 2"
        by (simp add: pow2_def)
      then have "of_int (2 ^ 52) * pow2 (u + 1) = of_int n * pow2 u"
        by (simp add: True pow2_add)
      ultimately show ?thesis
        by (simp add: r)
    next
      case False
      with n_hi n_pos have "\<bar>n\<bar> < 2 ^ 53"
        by simp
      then have "exact (of_int n * pow2 u)"
        using u_lo u_hi by (intro exact_dyadic) simp_all
      then show ?thesis
        by (simp add: r)
    qed
  qed
qed

lemma round_double_exact: "round_double q = Fin r \<Longrightarrow> exact r"
proof -
  assume a: "round_double q = Fin r"
  consider "q = 0" | "0 < q" | "q < 0" by linarith
  then show ?thesis
  proof cases
    case 1
    with a show ?thesis by (auto simp: round_double_def exact_def)
  next
    case 2
    with a have "r = round_pos q" "round_pos q \<le> max_double"
      by (auto simp: round_double_def split: if_splits)
    with 2 show ?thesis
      using round_pos_exact by simp
  next
    case 3
    with a have "r = - round_pos (- q)" "round_pos (- q) \<le> max_double"
      by (auto simp: round_double_def split: if_splits)
    moreover have "0 < - q" using 3 by simp
    ultimately show ?thesis
      using round_pos_exact[of "- q"] exact_minus by simp
  qed
qed

section \<open>Facts about the float operations\<close>

lemma fsub_Fin [simp]: "fsub (Fin a) (Fin b) = round_double (a - b)"
  by (simp add: fsub_def)

lemma fadd_exact_result: "fadd (Fin a) (Fin b) = Fin r \<Longrightarrow> exact r"
  by (simp add: round_double_exact)

lemma fsub_exact_result: "fsub (Fin a) (Fin b) = Fin r \<Longrightarrow> exact r"
  by (simp add: round_double_exact)

lemma round_double_numeral [simp]:
  "numeral k < (2 ^ 53 :: int) \<Longrightarrow> round_double (numeral k) = Fin (numeral k)"
  using exact_numeral[of k] by (simp add: exact_def)

lemma round_double_nonneg: "0 \<le> q \<Longrightarrow> \<not> flt (round_double q) (Fin 0)"
  using round_pos_nonneg[of q] by (simp add: round_double_def)

lemma fsub_nonneg:
  assumes "\<not> fle a (Fin 0)" and "\<not> flt b a"
  shows "\<not> flt (fsub b a) (Fin 0)"
  using assms by (cases a; cases b) (simp_all add: fsub_def round_double_nonneg)

lemma fadd_nonneg:
  assumes "\<not> fle a (Fin 0)" and "\<not> flt c (Fin 0)"
  shows "\<not> flt (fadd c a) (Fin 0)"
  using assms by (cases a; cases c) (simp_all add: round_double_nonneg)

lemma two_accounts_balances:
  "get_balance 0 (two_accounts b c) = b" "get_balance (Suc 0) (two_accounts b c) = c"
  by (simp_all add: get_balance_def two_accounts_def BankAccount_init_def)

section \<open>Accepted transfers\<close>

lemma accepted_transfer_eq:
  assumes "flt (Fin 0) amt" and "fle amt (get_balance self w)"
  shows "transfer self amt to_account w =
     (True, set_balance to_account
        (fadd (get_balance to_account (set_balance self (fsub (get_balance self w) amt) w)) amt)
        (set_balance self (fsub (get_balance self w) amt) w))"
  using flt_not_fle[OF assms(1)] fle_not_flt[OF assms(2)]
  by (simp add: transfer_def Let_def)

text \<open>
  C1, as amended. For every pair of distinct accounts and every amount \<open>a\<close> with
  \<open>0 < a \<le>\<close> the sender's balance, \<open>transfer\<close> returns true, the sender's balance
  becomes the float difference of balance and amount, and the receiver's the float sum.
  When neither operation rounds, the sender's balance has decreased by exactly \<open>a\<close>,
  the receiver's has increased by exactly \<open>a\<close>, and the sum of the two balances is
  the same before and after the call.
\<close>

theorem transfer_accepted:
  assumes "self \<noteq> to_account" and "flt (Fin 0) amt" and "fle amt (get_balance self w)"
  shows "fst (transfer self amt to_account w) = True
    \<and> get_balance self (snd (transfer self amt to_account w)) = fsub (get_balance self w) amt
    \<and> get_balance to_account (snd (transfer self amt to_account w))
        = fadd (get_balance to_account w) amt
    \<and> (\<forall>a b c. amt = Fin a \<and> get_balance self w = Fin b \<and> get_balance to_account w = Fin c
          \<and> exact (b - a) \<and> exact (c + a) \<longrightarrow>
        get_balance self (snd (transfer self amt to_account w)) = Fin (b - a)
        \<and> get_balance to_account (snd (transfer self amt to_account w)) = Fin (c + a)
        \<and> fadd (get_balance self (snd (transfer self amt to_account w)))
              (get_balance to_account (snd (transfer self amt to_account w)))
            = fadd (get_balance self w) (get_balance to_account w))"
proof -
  let ?w = "snd (transfer self amt to_account w)"
  have s: "get_balance self ?w = fsub (get_balance self w) amt"
    and t: "get_balance to_account ?w = fadd (get_balance to_account w) amt"
    and ok: "fst (transfer self amt to_account w) = True"
    using assms(1) by (simp_all add: accepted_transfer_eq[OF assms(2,3)])
  have "get_balance self ?w = Fin (b - a) \<and> get_balance to_account ?w = Fin (c + a)
      \<and> fadd (get_balance self ?w) (get_balance to_account ?w)
          = fadd (get_balance self w) (get_balance to_account w)"
    if "amt = Fin a" "get_balance self w = Fin b" "get_balance to_account w = Fin c"
      "exact (b - a)" "exact (c + a)" for a b c
    using that unfolding s t by (simp add: exact_def)
  with s t ok show ?thesis
    by blast
qed

theorem transfer_accepted_witness:
  "(0::nat) \<noteq> 1 \<and> flt (Fin 0) (Fin 200) \<and> fle (Fin 200) (get_balance 0 main_world)
   \<and> fst (transfer 0 (Fin 200) 1 main_world) = True
   \<and> get_balance 0 (snd (transfer 0 (Fin 200) 1 main_world)) = Fin 800
   \<and> get_balance 1 (snd (transfer 0 (Fin 200) 1 main_world)) = Fin 700"
proof -
  have h: "(0::nat) \<noteq> 1" "flt (Fin 0) (Fin 200)" "fle (Fin 200) (get_balance 0 main_world)"
    by (simp_all add: main_balances)
  have e: "exact (1000 - 200)" "exact (500 + 200)"
    by simp_all
  from transfer_accepted [OF h] h e show ?thesis
    by (simp add: main_balances)
qed

text \<open>
  The claim as it is written fails where the doubles are more than one apart: with both
  balances at \<open>2^53\<close>, a transfer of 1 is accepted and takes 1 from the sender, and the
  receiver's balance stays what it was.
\<close>

theorem transfer_exactly_counterexample:
  "(0::nat) \<noteq> 1 \<and> flt (Fin 0) (Fin 1) \<and> fle (Fin 1) (get_balance 0 big_accounts)
   \<and> exact 9007199254740992 \<and> exact 1
   \<and> fst (transfer 0 (Fin 1) 1 big_accounts) = True
   \<and> get_balance 0 big_accounts = Fin 9007199254740992
   \<and> get_balance 0 (snd (transfer 0 (Fin 1) 1 big_accounts)) = Fin 9007199254740991
   \<and> get_balance 1 big_accounts = Fin 9007199254740992
   \<and> get_balance 1 (snd (transfer 0 (Fin 1) 1 big_accounts)) = Fin 9007199254740992
   \<and> get_balance 1 (snd (transfer 0 (Fin 1) 1 big_accounts)) \<noteq> Fin (9007199254740992 + 1)"
proof -
  have b: "get_balance 0 big_accounts = Fin 9007199254740992"
    "get_balance (Suc 0) big_accounts = Fin 9007199254740992"
    by (simp_all add: big_accounts_def two_accounts_balances)
  have h: "flt (Fin 0) (Fin 1)" "fle (Fin 1) (get_balance 0 big_accounts)"
    by (simp_all add: b)
  have e: "exact (9007199254740992 - 1)"
    by simp
  have one: "exact 1"
    using exact_of_int[of 1] by simp
  show ?thesis
    using e one exact_two_53
    by (simp add: accepted_transfer_eq[OF h] b round_tie_53)
qed

section \<open>Transfers to oneself\<close>

text \<open>
  C10, as amended. A transfer from an account to itself of an amount \<open>a\<close> with
  \<open>0 < a \<le>\<close> its balance is accepted: it returns true, and the balance becomes the
  float sum of the amount and the float difference of balance and amount. When that
  difference is not rounded, the balance is what it was before the call.
\<close>

theorem self_transfer:
  assumes "flt (Fin 0) amt" and "fle amt (get_balance self w)"
  shows "fst (transfer self amt self w) = True
    \<and> get_balance self (snd (transfer self amt self w))
        = fadd (fsub (get_balance self w) amt) amt
    \<and> (\<forall>a b. amt = Fin a \<and> get_balance self w = Fin b \<and> exact b \<and> exact (b - a) \<longrightarrow>
          get_balance self (snd (transfer self amt self w)) = get_balance self w)"
proof -
  let ?w = "snd (transfer self amt self w)"
  have s: "get_balance self ?w = fadd (fsub (get_balance self w) amt) amt"
    and ok: "fst (transfer self amt self w) = True"
    by (simp_all add: accepted_transfer_eq[OF assms])
  have "get_balance self ?w = get_balance self w"
    if "amt = Fin a" "get_balance self w = Fin b" "exact b" "exact (b - a)" for a b
    using that unfolding s by (simp add: exact_def)
  with s ok show ?thesis
    by blast
qed

theorem self_transfer_witness:
  "flt (Fin 0) (Fin 200) \<and> fle (Fin 200) (get_balance 0 main_world)
   \<and> fst (transfer 0 (Fin 200) 0 main_world) = True
   \<and> get_balance 0 (snd (transfer 0 (Fin 200) 0 main_world)) = Fin 1000"
proof -
  have h: "flt (Fin 0) (Fin 200)" "fle (Fin 200) (get_balance 0 main_world)"
    by (simp_all add: main_balances)
  have e: "exact 1000" "exact (1000 - 200)"
    by simp_all
  from self_transfer [OF h] h e show ?thesis
    by (simp add: main_balances)
qed

text \<open>
  The claim as it is written fails at the balance \<open>2^53 + 2\<close>: a transfer of 1 to
  oneself is accepted and leaves \<open>2^53\<close>.
\<close>

theorem self_transfer_counterexample:
  "flt (Fin 0) (Fin 1) \<and> fle (Fin 1) (get_balance 0 odd_accounts)
   \<and> exact 9007199254740994 \<and> exact 1
   \<and> fst (transfer 0 (Fin 1) 0 odd_accounts) = True
   \<and> get_balance 0 odd_accounts = Fin 9007199254740994
   \<and> get_balance 0 (snd (transfer 0 (Fin 1) 0 odd_accounts)) = Fin 9007199254740992
   \<and> get_balance 0 (snd (transfer 0 (Fin 1) 0 odd_accounts)) \<noteq> get_balance 0 odd_accounts"
proof -
  have b: "get_balance 0 odd_accounts = Fin 9007199254740994"
    by (simp add: odd_accounts_def two_accounts_balances)
  have h: "flt (Fin 0) (Fin 1)" "fle (Fin 1) (get_balance 0 odd_accounts)"
    by (simp_all add: b)
  have one: "exact 1"
    using exact_of_int[of 1] by simp
  show ?thesis
    using one exact_two_53_plus_2
    by (simp add: accepted_transfer_eq[OF h] b round_tie_53)
qed

section \<open>Processing a payment twice\<close>

lemma process_verified:
  assumes "accounts (from_account_id p) = Some s"
    and "accounts (to_account_id p) = Some t"
    and "verifies lw p (heap w s)"
  shows "process lw p accounts w =
     (if fst (transfer s (amount p) t w) then (Inr True, snd (transfer s (amount p) t w))
      else (Inr False, print ''Error: transfer failed'' (snd (transfer s (amount p) t w))))"
  using assms
  by (cases p)
    (simp_all add: CreditCardPayment_process_def PayPalPayment_process_def getitem_def
      split_beta)

lemma verifies_cong:
  assumes "credit_card_number acc' = credit_card_number acc"
    and "paypal_email acc' = paypal_email acc"
  shows "verifies lw p acc' = verifies lw p acc"
  using assms by (cases p) (simp_all add: verify_credit_card_def verify_paypal_email_def)

lemma main_cards:
  "credit_card_number (heap main_world 0) = ''1234567890123456''"
  "credit_card_number (heap main_world (Suc 0)) = ''1111222233334444''"
  "paypal_email (heap main_world 0) = Some ''user1@example.com''"
  "paypal_email (heap main_world (Suc 0)) = Some ''user2@example.com''"
  by (simp_all add: main_world_def BankAccount_init_def)

lemma round_tie_54: "round_double 18014398509481983 = Fin 18014398509481984"
proof -
  have "floor_log2 18014398509481983 = 53"
    by (rule floor_log2_unique) (simp_all add: pow2_def)
  then have u: "ulp_exponent 18014398509481983 = 1"
    by (simp add: ulp_exponent_def)
  have "round_half_even (18014398509481983 / 2) = 9007199254740992"
    by (simp add: round_half_even_def Let_def)
  then have "round_pos 18014398509481983 = 18014398509481984"
    by (simp add: round_pos_def u pow2_def)
  then show ?thesis
    by (simp add: round_double_def max_double_def)
qed

text \<open>
  C8, as amended. Processing is not idempotent. For a payment with a valid credential
  whose sender and receiver are distinct accounts, and an amount \<open>a > 0\<close> for which
  both calls find sufficient funds: calling \<open>process\<close> twice on the same payment
  returns true both times and executes two transfers, which leave the sender's balance
  at the float value (balance - a) - a. When neither subtraction rounds, the sender has
  been debited \<open>2a\<close> in total, not \<open>a\<close>.
\<close>

theorem process_twice:
  assumes "accounts (from_account_id p) = Some s"
    and "accounts (to_account_id p) = Some t"
    and "s \<noteq> t"
    and "verifies lw p (heap w s)"
    and "flt (Fin 0) (amount p)"
    and "fle (amount p) (get_balance s w)"
    and "fle (amount p) (get_balance s (snd (process lw p accounts w)))"
  shows "fst (process lw p accounts w) = Inr True
    \<and> fst (process lw p accounts (snd (process lw p accounts w))) = Inr True
    \<and> snd (process lw p accounts (snd (process lw p accounts w)))
        = snd (transfer s (amount p) t (snd (transfer s (amount p) t w)))
    \<and> get_balance s (snd (process lw p accounts (snd (process lw p accounts w))))
        = fsub (fsub (get_balance s w) (amount p)) (amount p)
    \<and> (\<forall>a b. amount p = Fin a \<and> get_balance s w = Fin b
          \<and> exact (b - a) \<and> exact (b - a - a) \<longrightarrow>
        get_balance s (snd (process lw p accounts (snd (process lw p accounts w))))
          = Fin (b - 2 * a)
        \<and> Fin (b - 2 * a) \<noteq> Fin (b - a))"
proof -
  let ?a = "amount p"
  let ?w1 = "snd (transfer s ?a t w)"
  let ?w2 = "snd (transfer s ?a t ?w1)"
  have t1: "fst (transfer s ?a t w) = True"
    and b1: "get_balance s ?w1 = fsub (get_balance s w) ?a"
    using assms(3) by (simp_all add: accepted_transfer_eq[OF assms(5,6)])
  have p1: "process lw p accounts w = (Inr True, ?w1)"
    using process_verified[OF assms(1,2,4)] t1 by simp
  have v1: "verifies lw p (heap ?w1 s)"
    using assms(4) transfer_frame[of s ?a t w s]
      verifies_cong[of "heap ?w1 s" "heap w s" lw p]
    by simp
  have le2: "fle ?a (get_balance s ?w1)"
    using assms(7) by (simp add: p1)
  have t2: "fst (transfer s ?a t ?w1) = True"
    and b2: "get_balance s ?w2 = fsub (fsub (get_balance s w) ?a) ?a"
    using assms(3) by (simp_all add: accepted_transfer_eq[OF assms(5) le2] b1)
  have p2: "process lw p accounts ?w1 = (Inr True, ?w2)"
    using process_verified[OF assms(1,2) v1] t2 by simp
  have e: "get_balance s ?w2 = Fin (b - 2 * a) \<and> Fin (b - 2 * a) \<noteq> Fin (b - a)"
    if "amount p = Fin a" "get_balance s w = Fin b" "exact (b - a)" "exact (b - a - a)"
    for a b
  proof -
    have "0 < a"
      using assms(5) that(1) by simp
    moreover have "b - a - a = b - 2 * a"
      by simp
    ultimately show ?thesis
      using that unfolding b2 by (simp add: exact_def)
  qed
  have r: "snd (process lw p accounts (snd (process lw p accounts w))) = ?w2"
    and r1: "fst (process lw p accounts w) = Inr True"
    and r2: "fst (process lw p accounts (snd (process lw p accounts w))) = Inr True"
    by (simp_all add: p1 p2)
  show ?thesis
    unfolding r using r1 r2 b2 e by (simp add: r)
qed

theorem process_twice_witness:
  "verifies ascii_lower (main_payments ! 0) (heap main_world 0)
   \<and> flt (Fin 0) (amount (main_payments ! 0))
   \<and> fle (amount (main_payments ! 0)) (get_balance 0 main_world)
   \<and> fle (amount (main_payments ! 0))
        (get_balance 0 (snd (process ascii_lower (main_payments ! 0) main_accounts main_world)))
   \<and> fst (process ascii_lower (main_payments ! 0) main_accounts main_world) = Inr True
   \<and> fst (process ascii_lower (main_payments ! 0) main_accounts
        (snd (process ascii_lower (main_payments ! 0) main_accounts main_world))) = Inr True
   \<and> get_balance 0 (snd (process ascii_lower (main_payments ! 0) main_accounts
        (snd (process ascii_lower (main_payments ! 0) main_accounts main_world)))) = Fin 600"
proof -
  let ?p = "main_payments ! 0"
  let ?w1 = "snd (process ascii_lower ?p main_accounts main_world)"
  have p: "?p = CreditCardPayment (Fin 200) ''A001'' ''A002'' ''1234567890123456''"
    by (simp add: main_payments_def)
  have 1: "main_accounts (from_account_id ?p) = Some 0"
    and 2: "main_accounts (to_account_id ?p) = Some (Suc 0)"
    and 3: "(0::nat) \<noteq> Suc 0"
    and 4: "verifies ascii_lower ?p (heap main_world 0)"
    and 5: "flt (Fin 0) (amount ?p)"
    and 6: "fle (amount ?p) (get_balance 0 main_world)"
    and am: "amount ?p = Fin 200"
    by (simp_all add: p main_lookup main_balances verify_credit_card_def main_cards)
  have "?w1 = snd (transfer 0 (Fin 200) (Suc 0) main_world)"
    using process_verified[OF 1 2 4] accepted_transfer_eq[OF 5 6, of "Suc 0"]
    by (simp add: am)
  then have b1: "get_balance 0 ?w1 = Fin 800"
    using accepted_transfer_eq[OF 5 6, of "Suc 0"] by (simp add: am main_balances)
  then have 7: "fle (amount ?p) (get_balance 0 ?w1)"
    by (simp add: am)
  have e: "exact (1000 - 200)" "exact (1000 - 200 - 200)"
    by simp_all
  note t = process_twice [OF 1 2 3 4 5 6 7]
  have "fst (process ascii_lower ?p main_accounts main_world) = Inr True"
    and "fst (process ascii_lower ?p main_accounts ?w1) = Inr True"
    using t by blast+
  moreover have "get_balance 0 (snd (process ascii_lower ?p main_accounts ?w1))
      = Fin (1000 - 2 * 200)"
    using t am main_balances(1) e by blast
  ultimately show ?thesis
    using 4 5 6 7 by simp
qed

text \<open>
  The claim as it is written fails in two ways. A payment from an account to itself is
  processed twice with success and leaves the balance where it was; and at a sender's
  balance of \<open>2^54\<close> a payment of 1 to another account is processed twice with
  success while the sender's balance does not move.
\<close>

theorem process_twice_counterexample:
  "fst (process ascii_lower self_payment main_accounts main_world) = Inr True
   \<and> fst (process ascii_lower self_payment main_accounts
        (snd (process ascii_lower self_payment main_accounts main_world))) = Inr True
   \<and> get_balance 0 (snd (process ascii_lower self_payment main_accounts
        (snd (process ascii_lower self_payment main_accounts main_world)))) = Fin 1000
   \<and> Fin 1000 \<noteq> Fin (1000 - 2 * 200)
   \<and> exact 18014398509481984 \<and> exact 1
   \<and> fst (process ascii_lower unit_payment main_accounts huge_accounts) = Inr True
   \<and> fst (process ascii_lower unit_payment main_accounts
        (snd (process ascii_lower unit_payment main_accounts huge_accounts))) = Inr True
   \<and> get_balance 0 (snd (process ascii_lower unit_payment main_accounts
        (snd (process ascii_lower unit_payment main_accounts huge_accounts)))) = Fin 18014398509481984
   \<and> Fin 18014398509481984 \<noteq> Fin (18014398509481984 - 2 * 1)"
proof -
  let ?w1 = "snd (transfer 0 (Fin 200) 0 main_world)"
  let ?w2 = "snd (transfer 0 (Fin 200) 0 ?w1)"
  have k: "main_accounts (from_account_id self_payment) = Some 0"
    "main_accounts (to_account_id self_payment) = Some 0"
    and am: "amount self_payment = Fin 200"
    by (simp_all add: self_payment_def main_lookup)
  have v0: "verifies ascii_lower self_payment (heap main_world 0)"
    by (simp add: self_payment_def verify_credit_card_def main_cards)
  have pos: "flt (Fin 0) (Fin 200)"
    by simp
  have a1: "fle (Fin 200) (get_balance 0 main_world)"
    by (simp add: main_balances)
  have s1: "process ascii_lower self_payment main_accounts main_world = (Inr True, ?w1)"
    using process_verified[OF k v0] by (simp add: am accepted_transfer_eq[OF pos a1])
  have b1: "get_balance 0 ?w1 = Fin 1000"
    by (simp add: accepted_transfer_eq[OF pos a1] main_balances)
  have v1: "verifies ascii_lower self_payment (heap ?w1 0)"
    using v0 transfer_frame[of 0 "Fin 200" 0 main_world 0]
      verifies_cong[of "heap ?w1 0" "heap main_world 0" ascii_lower self_payment]
    by simp
  have a2: "fle (Fin 200) (get_balance 0 ?w1)"
    by (simp add: b1)
  have s2: "process ascii_lower self_payment main_accounts ?w1 = (Inr True, ?w2)"
    using process_verified[OF k v1] by (simp add: am accepted_transfer_eq[OF pos a2])
  have b2: "get_balance 0 ?w2 = Fin 1000"
    by (simp add: accepted_transfer_eq[OF pos a2] b1)
  let ?v1 = "snd (transfer 0 (Fin 1) (Suc 0) huge_accounts)"
  let ?v2 = "snd (transfer 0 (Fin 1) (Suc 0) ?v1)"
  have l: "main_accounts (from_account_id unit_payment) = Some 0"
    "main_accounts (to_account_id unit_payment) = Some (Suc 0)"
    and an: "amount unit_payment = Fin 1"
    by (simp_all add: unit_payment_def main_lookup)
  have one: "flt (Fin 0) (Fin 1)"
    by simp
  have hb: "get_balance 0 huge_accounts = Fin 18014398509481984"
    by (simp add: huge_accounts_def two_accounts_balances)
  have x0: "verifies ascii_lower unit_payment (heap huge_accounts 0)"
    by (simp add: unit_payment_def verify_credit_card_def huge_accounts_def two_accounts_def
        BankAccount_init_def)
  have d1: "fle (Fin 1) (get_balance 0 huge_accounts)"
    by (simp add: hb)
  have u1: "process ascii_lower unit_payment main_accounts huge_accounts = (Inr True, ?v1)"
    using process_verified[OF l x0] by (simp add: an accepted_transfer_eq[OF one d1])
  have e1: "get_balance 0 ?v1 = Fin 18014398509481984"
    by (simp add: accepted_transfer_eq[OF one d1] hb round_tie_54)
  have x1: "verifies ascii_lower unit_payment (heap ?v1 0)"
    using x0 transfer_frame[of 0 "Fin 1" 1 huge_accounts 0]
      verifies_cong[of "heap ?v1 0" "heap huge_accounts 0" ascii_lower unit_payment]
    by simp
  have d2: "fle (Fin 1) (get_balance 0 ?v1)"
    by (simp add: e1)
  have u2: "process ascii_lower unit_payment main_accounts ?v1 = (Inr True, ?v2)"
    using process_verified[OF l x1] by (simp add: an accepted_transfer_eq[OF one d2])
  have e2: "get_balance 0 ?v2 = Fin 18014398509481984"
    by (simp add: accepted_transfer_eq[OF one d2] e1 round_tie_54)
  have x: "exact 1"
    using exact_of_int[of 1] by simp
  show ?thesis
    using x exact_two_54 by (simp add: s1 s2 b2 u1 u2 e2)
qed

section \<open>The run of the driver\<close>

lemma round_half_even_numeral [simp]: "round_half_even (numeral k) = numeral k"
  using round_half_even_of_int[of "numeral k"] by simp

lemma dashes: "replicate 30 (CHR ''-'') = ''------------------------------''"
  by (simp add: numeral_eq_Suc)

lemma wrong_email:
  assumes "str_lower lw"
  shows "lw ''wrong@example.com'' \<noteq> lw ''user1@example.com''"
  using str_lower_eq_iff[OF assms ascii_literals(3) ascii_literals(1)]
  by (simp add: eq_ignore_case_def same_letter_def is_upper_def)

lemmas run_defs = main_payments_def main_accounts_def main_items_def main_world_def
  CreditCardPayment_process_def PayPalPayment_process_def getitem_def verify_credit_card_def
  verify_paypal_email_def transfer_def Let_def get_balance_def set_balance_def print_def
  BankAccount_init_def or_empty_def bool_str_def dashes

lemma first_payment:
  "fst (process lw (main_payments ! 0) main_accounts main_world) = Inr True"
  "get_balance 0 (after1 lw) = Fin 800" "get_balance 1 (after1 lw) = Fin 700"
  by (simp_all add: after1_def run_defs)

lemma second_payment:
  assumes "str_lower lw"
  shows "fst (process lw (main_payments ! 1) main_accounts (after1 lw)) = Inr False"
    and "get_balance 0 (after2 lw) = Fin 800" and "get_balance 1 (after2 lw) = Fin 700"
  using wrong_email[OF assms] by (simp_all add: after2_def after1_def run_defs)

lemma third_payment:
  assumes "str_lower lw"
  shows "fst (process lw (main_payments ! 2) main_accounts (after2 lw)) = Inr False"
    and "get_balance 0 (after3 lw) = Fin 800" and "get_balance 1 (after3 lw) = Fin 700"
  using wrong_email[OF assms] by (simp_all add: after3_def after2_def after1_def run_defs)

lemma main_result:
  assumes "str_lower lw"
  shows "fst (main lw) = Inr ()"
    and "get_balance 0 (snd (main lw)) = Fin 800" and "get_balance 1 (snd (main lw)) = Fin 700"
  using wrong_email[OF assms] by (simp_all add: main_def run_defs)

lemma main_stdout:
  assumes "str_lower lw"
  shows "stdout (snd (main lw)) =
     [''Successfully? True'', ''------------------------------'',
      ''Error: invalid PayPal-email'', ''Successfully? False'',
      ''------------------------------'',
      ''Insufficient funds'', ''Error: transfer failed'', ''Successfully? False'',
      ''------------------------------'',
      ''BankAccount(id=A001, balance=800.00, card=1234567890123456, paypal=user1@example.com)'',
      ''BankAccount(id=A002, balance=700.00, card=1111222233334444, paypal=user2@example.com)'']"
  using wrong_email[OF assms]
  by (simp add: main_def run_defs BankAccount_str_def opt_str_def nat_str.simps digit_char_def)

text \<open>
  C7. From A001 with balance 1000 and A002 with balance 500 and the credentials of the
  driver, the three payments of the driver, processed in order (a card payment of 200
  from A001 to A002 with the right card, a PayPal payment of 300 from A001 to A002 with
  a wrong email, a card payment of 900 from A002 to A001 with the right card), return
  true, false and false; the balances are 800 and 700 after the first payment and stay
  so after each failure. The driver ends without an exception and prints the balances
  as 800.00 and 700.00. This holds with every lowercase function that does on ASCII
  strings what \<^verbatim>\<open>str.lower\<close> does.
\<close>

theorem main_scenario:
  assumes "str_lower lw"
  shows "fst (process lw (main_payments ! 0) main_accounts main_world) = Inr True
   \<and> get_balance 0 (after1 lw) = Fin 800 \<and> get_balance 1 (after1 lw) = Fin 700
   \<and> fst (process lw (main_payments ! 1) main_accounts (after1 lw)) = Inr False
   \<and> get_balance 0 (after2 lw) = Fin 800 \<and> get_balance 1 (after2 lw) = Fin 700
   \<and> fst (process lw (main_payments ! 2) main_accounts (after2 lw)) = Inr False
   \<and> get_balance 0 (after3 lw) = Fin 800 \<and> get_balance 1 (after3 lw) = Fin 700
   \<and> fst (main lw) = Inr ()
   \<and> get_balance 0 (snd (main lw)) = Fin 800 \<and> get_balance 1 (snd (main lw)) = Fin 700
   \<and> stdout (snd (main lw)) =
     [''Successfully? True'', ''------------------------------'',
      ''Error: invalid PayPal-email'', ''Successfully? False'',
      ''------------------------------'',
      ''Insufficient funds'', ''Error: transfer failed'', ''Successfully? False'',
      ''------------------------------'',
      ''BankAccount(id=A001, balance=800.00, card=1234567890123456, paypal=user1@example.com)'',
      ''BankAccount(id=A002, balance=700.00, card=1111222233334444, paypal=user2@example.com)'']"
  by (simp only: first_payment second_payment[OF assms] third_payment[OF assms]
      main_result[OF assms] main_stdout[OF assms] simp_thms)

theorem main_scenario_witness:
  "str_lower ascii_lower
   \<and> fst (process ascii_lower (main_payments ! 0) main_accounts main_world) = Inr True
   \<and> get_balance 0 (after1 ascii_lower) = Fin 800 \<and> get_balance 1 (after1 ascii_lower) = Fin 700
   \<and> fst (process ascii_lower (main_payments ! 1) main_accounts (after1 ascii_lower)) = Inr False
   \<and> get_balance 0 (after2 ascii_lower) = Fin 800 \<and> get_balance 1 (after2 ascii_lower) = Fin 700
   \<and> fst (process ascii_lower (main_payments ! 2) main_accounts (after2 ascii_lower)) = Inr False
   \<and> get_balance 0 (after3 ascii_lower) = Fin 800 \<and> get_balance 1 (after3 ascii_lower) = Fin 700
   \<and> fst (main ascii_lower) = Inr ()
   \<and> get_balance 0 (snd (main ascii_lower)) = Fin 800
   \<and> get_balance 1 (snd (main ascii_lower)) = Fin 700
   \<and> stdout (snd (main ascii_lower)) =
     [''Successfully? True'', ''------------------------------'',
      ''Error: invalid PayPal-email'', ''Successfully? False'',
      ''------------------------------'',
      ''Insufficient funds'', ''Error: transfer failed'', ''Successfully? False'',
      ''------------------------------'',
      ''BankAccount(id=A001, balance=800.00, card=1234567890123456, paypal=user1@example.com)'',
      ''BankAccount(id=A002, balance=700.00, card=1111222233334444, paypal=user2@example.com)'']"
  using main_scenario [OF str_lower_ascii_lower] str_lower_ascii_lower
  by (simp only: simp_thms)

section \<open>Negative balances\<close>

lemma balance_setter_negative:
  "flt v (Fin 0) \<Longrightarrow>
     balance_setter self v w = (Inl (ValueError ''Balance can't be negative''), w)"
  by (simp add: balance_setter_def)

lemma balance_setter_nonnegative:
  "\<not> flt v (Fin 0) \<Longrightarrow>
     fst (balance_setter self v w) = Inr () \<and> get_balance self (snd (balance_setter self v w)) = v"
  by (simp add: balance_setter_def)

lemma transfer_keeps_nonnegative:
  assumes "\<And>r. \<not> flt (get_balance r w) (Fin 0)"
  shows "\<not> flt (get_balance r (snd (transfer s a t w))) (Fin 0)"
proof (cases "fle a (Fin 0) \<or> flt (get_balance s w) a")
  case True
  then show ?thesis
    using assms by (auto simp: transfer_def)
next
  case False
  then have a: "\<not> fle a (Fin 0)" and b: "\<not> flt (get_balance s w) a"
    by simp_all
  have 1: "\<not> flt (fsub (get_balance s w) a) (Fin 0)"
    using a b by (rule fsub_nonneg)
  have 2: "\<not> flt (fadd (fsub (get_balance s w) a) a) (Fin 0)"
    using a 1 by (rule fadd_nonneg)
  have 3: "\<not> flt (fadd (get_balance t w) a) (Fin 0)"
    using a assms by (rule fadd_nonneg)
  show ?thesis
    using a b 1 2 3 assms by (auto simp: transfer_def Let_def)
qed

text \<open>
  C3 fails on the code. The setter refuses a negative value and leaves the balance,
  and a transfer keeps balances that are not negative so; but the constructor stores
  the balance it is given without the check of the setter, so that an account starts
  its life with a negative balance.
\<close>

theorem constructor_stores_negative:
  "flt (balance (BankAccount_init ''A003'' (Fin (- 1)) ''4444'' (Some ''user3@example.com'')))
     (Fin 0)
   \<and> balance_setter 0 (Fin (- 1)) main_world
       = (Inl (ValueError ''Balance can't be negative''), main_world)"
  by (simp add: BankAccount_init_def balance_setter_def)

end
